theory Spec2Isabelle
  imports Complex_Main "HOL-Library.AList"
begin

section \<open>Data model\<close>

text \<open>
  JavaScript numbers that the program uses as counters, levels and indices are modelled
  as integers (\<open>int\<close>). The experience thresholds are computed as the program computes
  them, in double precision (see \<open>round_double\<close>). A value that need not be a number
  (the points of an answer, the score of a session) is a \<open>js_value\<close>.
  A calendar date string \<open>YYYY-MM-DD\<close> is modelled by its day number (days since the
  epoch); two date strings are equal exactly when their day numbers are.
\<close>

type_synonym date = int

record Statistics =
  totalQuestions :: int
  correctAnswers :: int
  accuracyRate :: int
  categoryStats :: "(string \<times> (int \<times> int)) list"
    \<comment> \<open>category \<mapsto> (total, correct), in insertion order\<close>

record HistoryEntry =
  h_difficulty :: string
  h_score :: int
  h_correctAnswers :: int
  h_totalQuestions :: int
  h_accuracyRate :: int
  h_date :: date
  h_timestamp :: int

record UserProgress =
  level :: int
  experience :: int
  totalPoints :: int
  streak :: int
  lastPlayDate :: "date option"
  unlockedFigures :: "string list"
  badges :: "string list"
  statistics :: Statistics
  quizHistory :: "HistoryEntry list"

text \<open>
  The persistent store holds the serialised record under one key, or nothing.
  \<open>loadUserData\<close> yields the record or \<open>null\<close>; \<open>saveUserData\<close> replaces it.
\<close>

type_synonym storage = "UserProgress option"

definition loadUserData :: "storage \<Rightarrow> UserProgress option" where
  "loadUserData st = st"

definition saveUserData :: "UserProgress \<Rightarrow> storage \<Rightarrow> storage" where
  "saveUserData userData st = Some userData"

definition defaultUserData :: UserProgress where
  "defaultUserData =
     \<lparr> level = 1, experience = 0, totalPoints = 0, streak = 0, lastPlayDate = None,
       unlockedFigures = [], badges = [],
       statistics = \<lparr> totalQuestions = 0, correctAnswers = 0, accuracyRate = 0,
                      categoryStats = [] \<rparr>,
       quizHistory = [] \<rparr>"

section \<open>Progression engine\<close>

subsection \<open>Experience and levels\<close>

text \<open>
  Double precision on integers. A double carries 53 significant bits: an integer of
  magnitude below \<open>2^53\<close> is a double, and a larger one is rounded to the nearest multiple
  of the unit of its binade (\<open>double_unit\<close>, a power of two), a tie going to the even
  multiple. Overflow to infinity, beyond \<open>2^1024\<close>, is not modelled.
\<close>

function double_unit :: "int \<Rightarrow> int" where
  "double_unit a = (if a < 2 ^ 53 then 1 else 2 * double_unit (a div 2))"
  by pat_completeness auto

termination double_unit
  by (relation "measure nat") auto

declare double_unit.simps [simp del]

definition round_double :: "int \<Rightarrow> int" where
  "round_double x =
     (let a = \<bar>x\<bar>;
          u = double_unit a;
          q = a div u;
          r = a mod u;
          q' = (if 2 * r > u \<or> (2 * r = u \<and> odd q) then q + 1 else q)
      in sgn x * (q' * u))"

text \<open>
  \<open>100 * Math.pow(level, 2)\<close>: the square rounded to a double, and the product with 100
  rounded to a double.
\<close>

definition calculateRequiredExp :: "int \<Rightarrow> int" where
  "calculateRequiredExp lvl = round_double (100 * round_double (lvl ^ 2))"

text \<open>
  The level-up loop of \<open>addExperience\<close>: the state is the experience, the level and the
  \<open>leveledUp\<close> flag (\<open>newLevel\<close> always equals the current level after an iteration).
  The loop ends for every experience and level, because the threshold of every level but 0
  is at least 1.
\<close>

lemma double_unit_small: "a < 2 ^ 53 \<Longrightarrow> double_unit a = 1"
  by (simp add: double_unit.simps)

lemma double_unit_pos: "0 < double_unit a"
  by (induction a rule: double_unit.induct) (simp add: double_unit.simps)

lemma double_unit_le: "1 \<le> a \<Longrightarrow> double_unit a \<le> a"
proof (induction a rule: double_unit.induct)
  case (1 a)
  show ?case
  proof (cases "a < 2 ^ 53")
    case True
    with "1.prems" show ?thesis by (simp add: double_unit_small)
  next
    case False
    then have "1 \<le> a div 2" by simp
    with "1.IH" False have "double_unit (a div 2) \<le> a div 2" by simp
    moreover have "double_unit a = 2 * double_unit (a div 2)"
      using False by (simp add: double_unit.simps)
    ultimately show ?thesis by simp
  qed
qed

lemma round_double_small: "\<bar>x\<bar> < 2 ^ 53 \<Longrightarrow> round_double x = x"
  by (simp add: round_double_def double_unit_small Let_def mult_sgn_abs)

lemma round_double_ge_one:
  assumes "1 \<le> x" shows "1 \<le> round_double x"
proof -
  let ?u = "double_unit x"
  let ?q = "x div ?u"
  let ?q' = "if 2 * (x mod ?u) > ?u \<or> (2 * (x mod ?u) = ?u \<and> odd ?q) then ?q + 1 else ?q"
  have u: "0 < ?u" "?u \<le> x" using assms by (simp_all add: double_unit_pos double_unit_le)
  then have "0 < ?q" by (simp add: pos_imp_zdiv_pos_iff)
  then have "1 \<le> ?q" by simp
  then have "1 \<le> ?q'" by simp
  with u(1) have "1 * 1 \<le> ?q' * ?u" by (intro mult_mono) simp_all
  moreover from assms have "round_double x = ?q' * ?u"
    by (simp add: round_double_def Let_def)
  ultimately show ?thesis by simp
qed

lemma sq_ge_one: "(l::int) \<noteq> 0 \<Longrightarrow> 1 \<le> l ^ 2"
proof -
  assume "l \<noteq> 0"
  then have "1 \<le> \<bar>l\<bar>" by simp
  then have "1 * 1 \<le> \<bar>l\<bar> * \<bar>l\<bar>" by (intro mult_mono) simp_all
  then show ?thesis by (simp add: power2_eq_square)
qed

lemma calculateRequiredExp_pos: "l \<noteq> 0 \<Longrightarrow> 1 \<le> calculateRequiredExp l"
proof -
  assume "l \<noteq> 0"
  then have "1 \<le> round_double (l ^ 2)" by (intro round_double_ge_one sq_ge_one)
  then have "1 \<le> 100 * round_double (l ^ 2)" by simp
  then show ?thesis unfolding calculateRequiredExp_def by (rule round_double_ge_one)
qed

lemma calculateRequiredExp_0: "calculateRequiredExp 0 = 0"
  by (simp add: calculateRequiredExp_def round_double_small)

function levelUpLoop :: "int \<Rightarrow> int \<Rightarrow> bool \<Rightarrow> int \<times> int \<times> bool" where
  "levelUpLoop e lvl leveledUp =
     (if e \<ge> calculateRequiredExp lvl
      then levelUpLoop (e - calculateRequiredExp lvl) (lvl + 1) True
      else (e, lvl, leveledUp))"
  by pat_completeness auto

termination levelUpLoop
proof (relation "measure (\<lambda>(e, lvl, b). 2 * nat e + (if lvl = 0 then 1 else 0))", goal_cases)
  case 1
  show ?case by simp
next
  case (2 e lvl leveledUp)
  show ?case
  proof (cases "lvl = 0")
    case True
    with 2 show ?thesis by (simp add: calculateRequiredExp_0)
  next
    case False
    from calculateRequiredExp_pos [OF False] 2
    have "2 * nat (e - calculateRequiredExp lvl) + 1 < 2 * nat e"
      and "0 < e" and "0 < calculateRequiredExp lvl" by linarith+
    with False show ?thesis by simp
  qed
qed

declare levelUpLoop.simps [simp del]

record LevelUpInfo =
  leveledUp :: bool
  oldLevel :: "int option"
  newLevel :: "int option"
  currentExp :: "int option"
  requiredExp :: "int option"

definition addExperience :: "int \<Rightarrow> storage \<Rightarrow> storage \<times> LevelUpInfo" where
  "addExperience amount st =
     (case loadUserData st of
        None \<Rightarrow> (st, \<lparr> leveledUp = False, oldLevel = None, newLevel = None,
                       currentExp = None, requiredExp = None \<rparr>)
      | Some userData \<Rightarrow>
          (let old = level userData;
               (e, lvl, lu) = levelUpLoop (experience userData + amount) (level userData) False;
               userData' = userData \<lparr> experience := e, level := lvl \<rparr>
           in (saveUserData userData' st,
               \<lparr> leveledUp = lu, oldLevel = Some old, newLevel = Some lvl,
                 currentExp = Some e, requiredExp = Some (calculateRequiredExp lvl) \<rparr>)))"

subsection \<open>Points\<close>

text \<open>
  Values of the language that are not numbers arise where a table is read at a name it
  does not hold: an object literal inherits the properties of \<open>Object.prototype\<close>, so
  reading it at \<open>constructor\<close> or \<open>toString\<close> yields the inherited function (at
  \<open>__proto__\<close>, the prototype object), not \<open>undefined\<close>. \<open>JSInherited n\<close> is the value
  inherited under the name \<open>n\<close>. Adding with \<open>+\<close> is the sum of two numbers, and the
  concatenation of the texts of the operands when one of them is not a number:
  \<open>JSConcat a b\<close> is the string made of the text of \<open>a\<close> followed by the text of \<open>b\<close>.
\<close>

datatype js_value =
    JSNumber int
  | JSInherited string
  | JSConcat js_value js_value

definition Object_prototype_names :: "string list" where
  "Object_prototype_names =
     [''constructor'', ''__defineGetter__'', ''__defineSetter__'', ''hasOwnProperty'',
      ''__lookupGetter__'', ''__lookupSetter__'', ''isPrototypeOf'',
      ''propertyIsEnumerable'', ''toString'', ''valueOf'', ''__proto__'',
      ''toLocaleString'']"

fun js_plus :: "js_value \<Rightarrow> js_value \<Rightarrow> js_value" where
  "js_plus (JSNumber x) (JSNumber y) = JSNumber (x + y)"
| "js_plus a b = JSConcat a b"

text \<open>
  Reading a table of numbers at a name: its own entry, else the inherited value, else
  \<open>undefined\<close> (\<open>None\<close>).
\<close>

definition get_property :: "(string \<times> int) list \<Rightarrow> string \<Rightarrow> js_value option" where
  "get_property table name =
     (case map_of table name of
        Some n \<Rightarrow> Some (JSNumber n)
      | None \<Rightarrow> if name \<in> set Object_prototype_names then Some (JSInherited name) else None)"

text \<open>
  \<open>v || d\<close>: \<open>d\<close> when \<open>v\<close> is falsy (\<open>undefined\<close> or 0; functions, objects and the
  strings that arise here are truthy).
\<close>

definition js_or :: "js_value option \<Rightarrow> js_value \<Rightarrow> js_value" where
  "js_or v d = (case v of None \<Rightarrow> d | Some x \<Rightarrow> (if x = JSNumber 0 then d else x))"

definition or_default :: "int option \<Rightarrow> int \<Rightarrow> int" where
  "or_default v d = (case v of None \<Rightarrow> d | Some x \<Rightarrow> (if x = 0 then d else x))"

definition basePoints :: "(string \<times> int) list" where
  "basePoints = [(''beginner'', 10), (''intermediate'', 20), (''advanced'', 30)]"

definition calculatePoints :: "string \<Rightarrow> bool \<Rightarrow> int \<Rightarrow> js_value" where
  "calculatePoints difficulty isCorrect consecutiveCorrect =
     (if \<not> isCorrect then JSNumber 0
      else
        (let points = js_or (get_property basePoints difficulty) (JSNumber 10);
             points = (if consecutiveCorrect \<ge> 3 then js_plus points (JSNumber 10) else points);
             points = (if consecutiveCorrect \<ge> 5 then js_plus points (JSNumber 20) else points)
         in points))"

definition calculateConsecutiveBonus :: "int \<Rightarrow> int" where
  "calculateConsecutiveBonus consecutiveCorrect =
     (if consecutiveCorrect \<ge> 5 then 30
      else if consecutiveCorrect \<ge> 3 then 10
      else 0)"

subsection \<open>Operations of the storage manager on the record\<close>

definition addPoints :: "int \<Rightarrow> storage \<Rightarrow> storage" where
  "addPoints points st =
     (case loadUserData st of
        None \<Rightarrow> st
      | Some userData \<Rightarrow> saveUserData (userData \<lparr> totalPoints := totalPoints userData + points \<rparr>) st)"

definition storage_addExperience :: "int \<Rightarrow> storage \<Rightarrow> storage" where
  "storage_addExperience amount st =
     (case loadUserData st of
        None \<Rightarrow> st
      | Some userData \<Rightarrow> saveUserData (userData \<lparr> experience := experience userData + amount \<rparr>) st)"

definition unlockFigure :: "string \<Rightarrow> storage \<Rightarrow> storage" where
  "unlockFigure figureId st =
     (case loadUserData st of
        None \<Rightarrow> st
      | Some userData \<Rightarrow>
          (if figureId \<notin> set (unlockedFigures userData)
           then saveUserData (userData \<lparr> unlockedFigures := unlockedFigures userData @ [figureId] \<rparr>) st
           else st))"

definition awardBadge :: "string \<Rightarrow> storage \<Rightarrow> storage \<times> bool" where
  "awardBadge badgeId st =
     (case loadUserData st of
        None \<Rightarrow> (st, False)
      | Some userData \<Rightarrow>
          (if badgeId \<notin> set (badges userData)
           then (saveUserData (userData \<lparr> badges := badges userData @ [badgeId] \<rparr>) st, True)
           else (st, False)))"

subsection \<open>Percentages and statistics\<close>

text \<open>
  \<open>Math.round\<close> rounds to the nearest integer, a half towards plus infinity. The
  quotient and its product with 100 are taken in exact rational arithmetic; the program
  takes them in double precision, which can fall just below a half where the exact value
  is a half (23 of 40 is 57 in the program and 58 here). The guard for a total of 0 is as
  in the program.
\<close>

definition Math_round :: "rat \<Rightarrow> int" where
  "Math_round x = \<lfloor>x + 1 / 2\<rfloor>"

definition calculatePercentage :: "int \<Rightarrow> int \<Rightarrow> int" where
  "calculatePercentage val tot =
     (if tot = 0 then 0
      else Math_round ((of_int val / of_int tot) * 100))"

record Stats =
  stats_totalQuestions :: "int option"
  stats_correctAnswers :: "int option"
  stats_category :: "string option"

definition truthy_string :: "string option \<Rightarrow> bool" where
  "truthy_string s = (case s of None \<Rightarrow> False | Some x \<Rightarrow> x \<noteq> [])"

text \<open>
  In \<open>updateStatistics\<close> a category that is not yet in \<open>categoryStats\<close> gets a fresh
  pair of counters, unless its name is an inherited one: then the test for a missing entry
  finds the inherited value, no entry is created, and the counters written to that value
  are not part of the stored record.
\<close>

definition updateStatistics :: "Stats \<Rightarrow> storage \<Rightarrow> storage" where
  "updateStatistics stats st =
     (case loadUserData st of
        None \<Rightarrow> st
      | Some userData \<Rightarrow>
          (let s0 = statistics userData;
               s1 = (case stats_totalQuestions stats of
                       None \<Rightarrow> s0
                     | Some n \<Rightarrow> s0 \<lparr> totalQuestions := totalQuestions s0 + n \<rparr>);
               s2 = (case stats_correctAnswers stats of
                       None \<Rightarrow> s1
                     | Some n \<Rightarrow> s1 \<lparr> correctAnswers := correctAnswers s1 + n \<rparr>);
               s3 = (if totalQuestions s2 > 0
                     then s2 \<lparr> accuracyRate :=
                                 calculatePercentage (correctAnswers s2) (totalQuestions s2) \<rparr>
                     else s2);
               s4 = (if truthy_string (stats_category stats)
                     then
                       (let c = the (stats_category stats) in
                        if map_of (categoryStats s3) c = None \<and> c \<in> set Object_prototype_names
                        then s3
                        else
                          (let (t, k) = (case map_of (categoryStats s3) c of
                                           None \<Rightarrow> (0, 0)
                                         | Some p \<Rightarrow> p);
                               t' = t + or_default (stats_totalQuestions stats) 0;
                               k' = k + or_default (stats_correctAnswers stats) 0
                           in s3 \<lparr> categoryStats :=
                                      AList.update c (t', k') (categoryStats s3) \<rparr>))
                     else s3)
           in saveUserData (userData \<lparr> statistics := s4 \<rparr>) st))"

subsection \<open>Quiz history\<close>

record QuizSummary =
  r_difficulty :: string
  r_score :: int
  r_correctAnswers :: int
  r_totalQuestions :: int
  r_accuracyRate :: int

definition slice_last :: "nat \<Rightarrow> 'a list \<Rightarrow> 'a list" where
  \<comment> \<open>\<open>xs.slice(-n)\<close> for \<open>n > 0\<close>: the last \<open>n\<close> elements, all of them when there are fewer\<close>
  "slice_last n xs = drop (length xs - n) xs"

definition stamp :: "QuizSummary \<Rightarrow> date \<Rightarrow> int \<Rightarrow> HistoryEntry" where
  \<comment> \<open>\<open>{...quizResult, date: getToday(), timestamp: Date.now()}\<close>\<close>
  "stamp quizResult today now =
     \<lparr> h_difficulty = r_difficulty quizResult, h_score = r_score quizResult,
       h_correctAnswers = r_correctAnswers quizResult,
       h_totalQuestions = r_totalQuestions quizResult,
       h_accuracyRate = r_accuracyRate quizResult,
       h_date = today, h_timestamp = now \<rparr>"

definition addQuizToHistory :: "QuizSummary \<Rightarrow> date \<Rightarrow> int \<Rightarrow> storage \<Rightarrow> storage" where
  "addQuizToHistory quizResult today now st =
     (case loadUserData st of
        None \<Rightarrow> st
      | Some userData \<Rightarrow>
          (let h = quizHistory userData @ [stamp quizResult today now];
               h' = (if length h > 50 then slice_last 50 h else h)
           in saveUserData (userData \<lparr> quizHistory := h' \<rparr>) st))"

text \<open>A session summary together with the date and the time of its completion, stamped.\<close>

definition stamp3 :: "QuizSummary \<times> date \<times> int \<Rightarrow> HistoryEntry" where
  "stamp3 x = (case x of (r, today, now) \<Rightarrow> stamp r today now)"

text \<open>A run of completed sessions, each appending its summary with the clock of its moment.\<close>

fun addQuizzesToHistory :: "(QuizSummary \<times> date \<times> int) list \<Rightarrow> storage \<Rightarrow> storage" where
  "addQuizzesToHistory [] st = st"
| "addQuizzesToHistory ((quizResult, today, now) # rest) st =
     addQuizzesToHistory rest (addQuizToHistory quizResult today now st)"

subsection \<open>Streak\<close>

definition Date_ms :: "date \<Rightarrow> int" where
  \<comment> \<open>\<open>new Date('YYYY-MM-DD')\<close>: midnight UTC of that day, in milliseconds\<close>
  "Date_ms d = d * (1000 * 60 * 60 * 24)"

definition Math_floor_div :: "int \<Rightarrow> int \<Rightarrow> int" where
  \<comment> \<open>\<open>Math.floor(a / b)\<close> for a positive divisor\<close>
  "Math_floor_div a b = a div b"

definition updateStreak :: "date \<Rightarrow> storage \<Rightarrow> storage \<times> int" where
  "updateStreak today st =
     (case loadUserData st of
        None \<Rightarrow> (st, 0)
      | Some userData \<Rightarrow>
          (if lastPlayDate userData = Some today then (st, streak userData)
           else
             (let userData1 =
                    (case lastPlayDate userData of
                       Some lastDate \<Rightarrow>
                         (let diffTime = Date_ms today - Date_ms lastDate;
                              diffDays = Math_floor_div diffTime (1000 * 60 * 60 * 24)
                          in if diffDays = 1 then userData \<lparr> streak := streak userData + 1 \<rparr>
                             else if diffDays > 1 then userData \<lparr> streak := 1 \<rparr>
                             else userData)
                     | None \<Rightarrow> userData \<lparr> streak := 1 \<rparr>);
                  userData2 = userData1 \<lparr> lastPlayDate := Some today \<rparr>
              in (saveUserData userData2 st, streak userData2))))"

subsection \<open>Badges\<close>

text \<open>
  A badge definition of the catalogue is represented by its key; the display name and the
  icon of a badge play no part in the logic.
\<close>

definition badge_catalogue :: "(string \<times> string) list" where
  \<comment> \<open>key \<mapsto> condition tag\<close>
  "badge_catalogue =
     [(''beginner'', ''quiz_completed''), (''learner'', ''correct_50''),
      (''scholar'', ''correct_200''), (''perfectionist'', ''perfect_quiz''),
      (''streak_7'', ''streak_7''), (''streak_30'', ''streak_30''),
      (''scientist_master'', ''category_scientist''), (''artist_master'', ''category_artist''),
      (''politician_master'', ''category_politician''),
      (''inventor_master'', ''category_inventor''),
      (''philosopher_master'', ''category_philosopher'')]"

record SessionSummary =
  s_correctAnswers :: int
  s_totalQuestions :: int
  s_difficulty :: string

text \<open>
  One block of \<open>checkBadgeConditions\<close>: the badge is looked for in the record loaded at
  entry (\<open>userData\<close>), its condition is tested, and \<open>awardBadge\<close> works on the store.
\<close>

definition badgeBlock ::
  "UserProgress \<Rightarrow> string \<Rightarrow> bool \<Rightarrow> storage \<times> string list \<Rightarrow> storage \<times> string list" where
  "badgeBlock userData badgeId cond acc =
     (case acc of (st, newBadges) \<Rightarrow>
        if badgeId \<notin> set (badges userData) then
          if cond then
            (case awardBadge badgeId st of
               (st', awarded) \<Rightarrow> if awarded then (st', newBadges @ [badgeId]) else (st', newBadges))
          else (st, newBadges)
        else (st, newBadges))"

definition checkBadgeConditions :: "SessionSummary \<Rightarrow> storage \<Rightarrow> storage \<times> string list" where
  "checkBadgeConditions quizResult st =
     (case loadUserData st of
        None \<Rightarrow> (st, [])
      | Some userData \<Rightarrow>
          (let a0 = (st, []);
               a1 = badgeBlock userData ''beginner'' True a0;
               a2 = badgeBlock userData ''perfectionist''
                      (s_correctAnswers quizResult = s_totalQuestions quizResult) a1;
               a3 = badgeBlock userData ''learner''
                      (correctAnswers (statistics userData) \<ge> 50) a2;
               a4 = badgeBlock userData ''scholar''
                      (correctAnswers (statistics userData) \<ge> 200) a3;
               a5 = badgeBlock userData ''streak_7'' (streak userData \<ge> 7) a4;
               a6 = badgeBlock userData ''streak_30'' (streak userData \<ge> 30) a5
           in a6))"

record Figure =
  fig_id :: string
  fig_category :: string

definition checkCategoryMaster :: "string \<Rightarrow> Figure list \<Rightarrow> storage \<Rightarrow> storage \<times> string option" where
  \<comment> \<open>the result is the catalogue entry of the awarded badge, if there is one\<close>
  "checkCategoryMaster category allFigures st =
     (case loadUserData st of
        None \<Rightarrow> (st, None)
      | Some userData \<Rightarrow>
          (let badgeId = category @ ''_master'' in
           if badgeId \<in> set (badges userData) then (st, None)
           else
             (let categoryFigures = filter (\<lambda>f. fig_category f = category) allFigures;
                  allUnlocked = list_all (\<lambda>f. fig_id f \<in> set (unlockedFigures userData))
                                  categoryFigures
              in if allUnlocked \<and> length categoryFigures > 0
                 then (case awardBadge badgeId st of
                         (st', awarded) \<Rightarrow>
                           if awarded
                           then (st', if badgeId \<in> fst ` set badge_catalogue
                                      then Some badgeId else None)
                           else (st', None))
                 else (st, None))))"

text \<open>
  The six blocks of \<open>checkBadgeConditions\<close> as a table, in the order of evaluation: the
  badge and whether its condition holds for the record loaded at entry. \<open>newlyGranted\<close>
  runs such a table over the list of badges granted so far.
\<close>

definition badge_conditions :: "SessionSummary \<Rightarrow> UserProgress \<Rightarrow> (string \<times> bool) list" where
  "badge_conditions quizResult userData =
     [(''beginner'', True),
      (''perfectionist'', s_correctAnswers quizResult = s_totalQuestions quizResult),
      (''learner'', correctAnswers (statistics userData) \<ge> 50),
      (''scholar'', correctAnswers (statistics userData) \<ge> 200),
      (''streak_7'', streak userData \<ge> 7),
      (''streak_30'', streak userData \<ge> 30)]"

fun newlyGranted :: "UserProgress \<Rightarrow> (string \<times> bool) list \<Rightarrow> string list \<Rightarrow> string list" where
  "newlyGranted u [] nb = nb"
| "newlyGranted u ((b, c) # cs) nb =
     newlyGranted u cs (if b \<notin> set (badges u) \<and> c \<and> b \<notin> set nb then nb @ [b] else nb)"

section \<open>Quiz session manager\<close>

record Question =
  q_id :: string
  q_category :: string
  q_difficulty :: string
  q_question :: string
  q_options :: "string list"
  q_correctAnswer :: int
  q_explanation :: string
  q_figureId :: string

record WrongAnswer =
  wa_question :: string
  wa_correctAnswer :: "string option"
  wa_userAnswer :: "string option"

record QuizManager =
  questions :: "Question list"
  currentQuestions :: "Question list"
  currentQuestionIndex :: int
  score :: js_value
  correctAnswers_q :: int
  wrongAnswers :: "WrongAnswer list"
  consecutiveCorrect :: int
  difficulty :: string
  isAnswered :: bool

definition QuizManager_new :: QuizManager where
  "QuizManager_new =
     \<lparr> questions = [], currentQuestions = [], currentQuestionIndex = 0, score = JSNumber 0,
       correctAnswers_q = 0, wrongAnswers = [], consecutiveCorrect = 0,
       difficulty = ''beginner'', isAnswered = False \<rparr>"

text \<open>
  Reading an array at an index: \<open>undefined\<close> outside the array (\<open>None\<close>).
\<close>

definition at_index :: "'a list \<Rightarrow> int \<Rightarrow> 'a option" where
  "at_index xs i = (if 0 \<le> i \<and> i < int (length xs) then Some (xs ! nat i) else None)"

text \<open>
  The Fisher-Yates shuffle. The random source is a parameter: \<open>rnd i\<close> stands for the
  draw \<open>Math.random()\<close> made at loop index \<open>i\<close>, and \<open>rnd i mod (i + 1)\<close> for
  \<open>Math.floor(Math.random() * (i + 1))\<close>, an index between 0 and \<open>i\<close>.
\<close>

fun shuffleLoop :: "(nat \<Rightarrow> nat) \<Rightarrow> nat \<Rightarrow> 'a list \<Rightarrow> 'a list" where
  "shuffleLoop rnd 0 shuffled = shuffled"
| "shuffleLoop rnd (Suc k) shuffled =
     (let i = Suc k;
          j = rnd i mod (i + 1)
      in shuffleLoop rnd k (shuffled [i := shuffled ! j, j := shuffled ! i]))"

definition shuffleArray :: "(nat \<Rightarrow> nat) \<Rightarrow> 'a list \<Rightarrow> 'a list" where
  "shuffleArray rnd array = shuffleLoop rnd (length array - 1) array"

definition selectQuestions :: "(nat \<Rightarrow> nat) \<Rightarrow> string \<Rightarrow> nat \<Rightarrow> QuizManager \<Rightarrow> Question list" where
  "selectQuestions rnd d count qm =
     (let availableQuestions = filter (\<lambda>q. q_difficulty q = d) (questions qm);
          shuffled = shuffleArray rnd availableQuestions
      in take count shuffled)"

definition startQuiz :: "(nat \<Rightarrow> nat) \<Rightarrow> string \<Rightarrow> QuizManager \<Rightarrow> QuizManager \<times> bool" where
  "startQuiz rnd d qm =
     (let qm1 = qm \<lparr> difficulty := d, currentQuestionIndex := 0, score := JSNumber 0,
                     correctAnswers_q := 0, wrongAnswers := [], consecutiveCorrect := 0 \<rparr>;
          qm2 = qm1 \<lparr> currentQuestions := selectQuestions rnd d 10 qm1 \<rparr>
      in if length (currentQuestions qm2) = 0 then (qm2, False) else (qm2, True))"

definition getCurrentQuestion :: "QuizManager \<Rightarrow> Question option" where
  "getCurrentQuestion qm = at_index (currentQuestions qm) (currentQuestionIndex qm)"

record AnswerResult =
  isCorrect :: bool
  a_correctAnswer :: int
  a_explanation :: string
  points :: js_value

datatype error = TypeError

text \<open>
  \<open>checkAnswer\<close> returns \<open>null\<close> (\<open>None\<close>) when the question is already answered, and
  throws a \<open>TypeError\<close> when there is no current question (reading a property of
  \<open>undefined\<close>), before any field is written.
\<close>

definition checkAnswer :: "int \<Rightarrow> QuizManager \<Rightarrow> error + (QuizManager \<times> AnswerResult option)" where
  "checkAnswer selectedOption qm =
     (if isAnswered qm then Inr (qm, None)
      else
        (case getCurrentQuestion qm of
           None \<Rightarrow> Inl TypeError
         | Some question \<Rightarrow>
             (let correct = (selectedOption = q_correctAnswer question);
                  qm1 = qm \<lparr> isAnswered := True \<rparr>;
                  qm2 =
                    (if correct then
                       (let qm' = qm1 \<lparr> correctAnswers_q := correctAnswers_q qm1 + 1,
                                        consecutiveCorrect := consecutiveCorrect qm1 + 1 \<rparr>;
                            pts = calculatePoints (difficulty qm') True (consecutiveCorrect qm')
                        in qm' \<lparr> score := js_plus (score qm') pts \<rparr>)
                     else
                       qm1 \<lparr> consecutiveCorrect := 0,
                             wrongAnswers := wrongAnswers qm1 @
                               [\<lparr> wa_question = q_question question,
                                  wa_correctAnswer =
                                    at_index (q_options question) (q_correctAnswer question),
                                  wa_userAnswer = at_index (q_options question) selectedOption \<rparr>] \<rparr>)
              in Inr (qm2,
                      Some \<lparr> isCorrect = correct,
                             a_correctAnswer = q_correctAnswer question,
                             a_explanation = q_explanation question,
                             points = (if correct
                                       then calculatePoints (difficulty qm2) True
                                              (consecutiveCorrect qm2)
                                       else JSNumber 0) \<rparr>))))"

definition nextQuestion :: "QuizManager \<Rightarrow> QuizManager \<times> bool" where
  "nextQuestion qm =
     (let qm' = qm \<lparr> isAnswered := False, currentQuestionIndex := currentQuestionIndex qm + 1 \<rparr>
      in (qm', currentQuestionIndex qm' < int (length (currentQuestions qm'))))"

definition getProgress :: "QuizManager \<Rightarrow> int" where
  "getProgress qm =
     calculatePercentage (currentQuestionIndex qm + 1) (int (length (currentQuestions qm)))"

section \<open>Import of user data\<close>

text \<open>
  The stored text and the imported text are JSON. \<open>JSON.parse\<close> belongs to the platform:
  a text is represented by what parsing it gives, a syntax error or a value.
\<close>

datatype json =
    JNull
  | JBool bool
  | JNum int
  | JStr string
  | JArr "json list"
  | JObj "(string \<times> json) list"

datatype json_text = Malformed | Text json

type_synonym raw_storage = "json option"

datatype import_outcome = Reloaded | ImportFailed

definition importData :: "json_text \<Rightarrow> raw_storage \<Rightarrow> raw_storage \<times> import_outcome" where
  \<comment> \<open>\<open>Reloaded\<close>: the value was saved and the page reloads; \<open>ImportFailed\<close>: the error
      is logged and the failure alert is shown\<close>
  "importData jsonData st =
     (case jsonData of
        Malformed \<Rightarrow> (st, ImportFailed)
      | Text userData \<Rightarrow> (Some userData, Reloaded))"

text \<open>The serialised form of a record, field by field as \<open>JSON.stringify\<close> writes it.\<close>

definition json_of_Statistics :: "Statistics \<Rightarrow> json" where
  "json_of_Statistics s =
     JObj [(''totalQuestions'', JNum (totalQuestions s)),
           (''correctAnswers'', JNum (correctAnswers s)),
           (''accuracyRate'', JNum (accuracyRate s)),
           (''categoryStats'',
              JObj (map (\<lambda>(c, (t, k)). (c, JObj [(''total'', JNum t), (''correct'', JNum k)]))
                      (categoryStats s)))]"

definition json_of_HistoryEntry :: "HistoryEntry \<Rightarrow> json" where
  "json_of_HistoryEntry h =
     JObj [(''difficulty'', JStr (h_difficulty h)), (''score'', JNum (h_score h)),
           (''correctAnswers'', JNum (h_correctAnswers h)),
           (''totalQuestions'', JNum (h_totalQuestions h)),
           (''accuracyRate'', JNum (h_accuracyRate h)),
           (''date'', JNum (h_date h)), (''timestamp'', JNum (h_timestamp h))]"

definition json_of_UserProgress :: "UserProgress \<Rightarrow> json" where
  "json_of_UserProgress u =
     JObj [(''level'', JNum (level u)), (''experience'', JNum (experience u)),
           (''totalPoints'', JNum (totalPoints u)), (''streak'', JNum (streak u)),
           (''lastPlayDate'', (case lastPlayDate u of None \<Rightarrow> JNull | Some d \<Rightarrow> JNum d)),
           (''unlockedFigures'', JArr (map JStr (unlockedFigures u))),
           (''badges'', JArr (map JStr (badges u))),
           (''statistics'', json_of_Statistics (statistics u)),
           (''quizHistory'', JArr (map json_of_HistoryEntry (quizHistory u)))]"

text \<open>
  Structural integrity of an imported value, after the data model of the specification:
  an object that has every field of the record.
\<close>

definition UserProgress_fields :: "string list" where
  "UserProgress_fields =
     [''level'', ''experience'', ''totalPoints'', ''streak'', ''lastPlayDate'',
      ''unlockedFigures'', ''badges'', ''statistics'', ''quizHistory'']"

fun structurally_valid :: "json \<Rightarrow> bool" where
  "structurally_valid (JObj fs) = list_all (\<lambda>k. k \<in> fst ` set fs) UserProgress_fields"
| "structurally_valid _ = False"

section \<open>Operations on the stored record\<close>

text \<open>
  \<open>resetUserData\<close> asks for confirmation and then saves the default record (and reloads
  the page).
\<close>

definition resetUserData :: "bool \<Rightarrow> storage \<Rightarrow> storage" where
  "resetUserData confirmed st = (if confirmed then saveUserData defaultUserData st else st)"

text \<open>
  \<open>updateField\<close> writes one field of the stored record: the field and its new value.
\<close>

datatype field_update =
    SetLevel int
  | SetExperience int
  | SetTotalPoints int
  | SetStreak int
  | SetLastPlayDate "date option"
  | SetUnlockedFigures "string list"
  | SetBadges "string list"
  | SetStatistics Statistics
  | SetQuizHistory "HistoryEntry list"

fun set_field :: "field_update \<Rightarrow> UserProgress \<Rightarrow> UserProgress" where
  "set_field (SetLevel v) u = u \<lparr> level := v \<rparr>"
| "set_field (SetExperience v) u = u \<lparr> experience := v \<rparr>"
| "set_field (SetTotalPoints v) u = u \<lparr> totalPoints := v \<rparr>"
| "set_field (SetStreak v) u = u \<lparr> streak := v \<rparr>"
| "set_field (SetLastPlayDate v) u = u \<lparr> lastPlayDate := v \<rparr>"
| "set_field (SetUnlockedFigures v) u = u \<lparr> unlockedFigures := v \<rparr>"
| "set_field (SetBadges v) u = u \<lparr> badges := v \<rparr>"
| "set_field (SetStatistics v) u = u \<lparr> statistics := v \<rparr>"
| "set_field (SetQuizHistory v) u = u \<lparr> quizHistory := v \<rparr>"

definition updateField :: "field_update \<Rightarrow> storage \<Rightarrow> storage" where
  "updateField fv st =
     (case loadUserData st of
        None \<Rightarrow> st
      | Some userData \<Rightarrow> saveUserData (set_field fv userData) st)"

text \<open>
  \<open>importData\<close> seen from the record: importing the serialised form of a record
  (\<open>Some\<close>) stores that record, and a text that is not JSON (\<open>None\<close>) leaves the store.
\<close>

definition importRecord :: "UserProgress option \<Rightarrow> storage \<Rightarrow> storage" where
  "importRecord imported st =
     (case imported of None \<Rightarrow> st | Some userData \<Rightarrow> saveUserData userData st)"

text \<open>
  Every operation of the program that writes the stored record. Three of them can write
  the list of badges as a whole: a confirmed reset, the import of a record, and
  \<open>updateField\<close> on the field \<open>badges\<close>.
\<close>

datatype operation =
    AddExperience int
  | AddPoints int
  | StorageAddExperience int
  | UnlockFigure string
  | AwardBadge string
  | UpdateStatistics Stats
  | AddQuizToHistory QuizSummary date int
  | UpdateStreak date
  | CheckBadgeConditions SessionSummary
  | CheckCategoryMaster string "Figure list"
  | ResetUserData bool
  | ImportData "UserProgress option"
  | UpdateField field_update

fun perform :: "operation \<Rightarrow> storage \<Rightarrow> storage" where
  "perform (AddExperience amount) st = fst (addExperience amount st)"
| "perform (AddPoints p) st = addPoints p st"
| "perform (StorageAddExperience amount) st = storage_addExperience amount st"
| "perform (UnlockFigure figureId) st = unlockFigure figureId st"
| "perform (AwardBadge badgeId) st = fst (awardBadge badgeId st)"
| "perform (UpdateStatistics stats) st = updateStatistics stats st"
| "perform (AddQuizToHistory quizResult today now) st = addQuizToHistory quizResult today now st"
| "perform (UpdateStreak today) st = fst (updateStreak today st)"
| "perform (CheckBadgeConditions quizResult) st = fst (checkBadgeConditions quizResult st)"
| "perform (CheckCategoryMaster category allFigures) st =
     fst (checkCategoryMaster category allFigures st)"
| "perform (ResetUserData confirmed) st = resetUserData confirmed st"
| "perform (ImportData imported) st = importRecord imported st"
| "perform (UpdateField fv) st = updateField fv st"

fun writes_badges :: "operation \<Rightarrow> bool" where
  "writes_badges (ResetUserData confirmed) = confirmed"
| "writes_badges (ImportData imported) = (imported \<noteq> None)"
| "writes_badges (UpdateField (SetBadges v)) = True"
| "writes_badges _ = False"

section \<open>Examples\<close>

text \<open>A session summary used in examples.\<close>

definition sample_summary :: QuizSummary where
  "sample_summary = \<lparr> r_difficulty = ''beginner'', r_score = 100, r_correctAnswers = 10,
                       r_totalQuestions = 10, r_accuracyRate = 100 \<rparr>"

text \<open>A question used in examples.\<close>

definition sample_question :: Question where
  "sample_question = \<lparr> q_id = ''sample_question'', q_category = ''scientist'', q_difficulty = ''advanced'',
          q_question = ''?'', q_options = [''a'', ''b''], q_correctAnswer = 1,
          q_explanation = ''b'', q_figureId = ''f1'' \<rparr>"

text \<open>
  The session after \<open>startQuiz('advanced')\<close> on a pool of that one question and a
  correct answer to it.
\<close>

definition session_in_progress :: QuizManager where
  "session_in_progress =
     \<lparr> questions = [sample_question], currentQuestions = [sample_question],
       currentQuestionIndex = 0, score = JSNumber 30, correctAnswers_q = 1, wrongAnswers = [],
       consecutiveCorrect = 1, difficulty = ''advanced'', isAnswered = True \<rparr>"

section \<open>Properties\<close>

subsection \<open>Double precision\<close>





subsection \<open>The level-up loop\<close>




subsection \<open>Experience thresholds\<close>




subsection \<open>Points\<close>

text \<open>
  For every difficulty that is not the name of an inherited property, and every
  consecutive-correct count: a correct answer earns the base points (10 beginner, 20
  intermediate, 30 advanced, 10 for any other difficulty) plus exactly one bonus, 0 below 3
  consecutive, 10 at 3 or 4, 30 from 5 on. An incorrect answer earns 0 whatever the
  difficulty.
\<close>

lemma calculatePoints_tiers:
  "calculatePoints d False c = JSNumber 0 \<and>
   (d \<notin> set Object_prototype_names \<longrightarrow>
    calculatePoints d True c =
      JSNumber
        ((if d = ''beginner'' then 10
          else if d = ''intermediate'' then 20
          else if d = ''advanced'' then 30
          else 10)
         + (if c < 3 then 0 else if c < 5 then 10 else 30)))"
  by (simp add: calculatePoints_def get_property_def js_or_def basePoints_def
        Object_prototype_names_def)

lemma calculatePoints_number:
  "d \<notin> set Object_prototype_names \<Longrightarrow> \<exists>p. calculatePoints d True c = JSNumber p"
  using calculatePoints_tiers [of d c] by blast

text \<open>
  Claim C2 at the difficulty \<open>constructor\<close>, which is none of the three tiers: the table
  of base points yields the inherited constructor function, the default of 10 is not taken,
  and the result is that function, or from 3 consecutive correct answers on a string made
  of its text and the bonus digits; it is never 10 plus a bonus.
\<close>

theorem calculatePoints_inherited_difficulty:
  "calculatePoints ''constructor'' True 0 = JSInherited ''constructor'' \<and>
   calculatePoints ''constructor'' True 0 \<noteq> JSNumber 10 \<and>
   calculatePoints ''constructor'' True 3 =
     JSConcat (JSInherited ''constructor'') (JSNumber 10) \<and>
   calculatePoints ''constructor'' True 3 \<noteq> JSNumber 20 \<and>
   calculatePoints ''constructor'' True 5 =
     JSConcat (JSConcat (JSInherited ''constructor'') (JSNumber 10)) (JSNumber 20) \<and>
   calculatePoints ''constructor'' True 5 \<noteq> JSNumber 40"
  by (simp add: calculatePoints_def get_property_def js_or_def basePoints_def
        Object_prototype_names_def)

subsection \<open>Adding experience\<close>



subsection \<open>Streak\<close>

lemma diffDays_eq: "Math_floor_div (Date_ms today - Date_ms d) 86400000 = today - d"
proof -
  have "Date_ms today - Date_ms d = (today - d) * 86400000"
    by (simp add: Date_ms_def algebra_simps)
  then show ?thesis by (simp add: Math_floor_div_def)
qed

text \<open>
  Claim C3. For a stored record, one streak update: when \<open>lastPlayDate\<close> is today, the
  streak and the store are unchanged; otherwise \<open>lastPlayDate\<close> becomes today, and the
  streak becomes 1 when there was no \<open>lastPlayDate\<close>, goes up by one when today is
  exactly one day after it, and is reset to 1 when today is more than a day after it.
  Nothing else in the record changes.
\<close>

theorem updateStreak_law:
  assumes "loadUserData st = Some u"
  shows "(lastPlayDate u = Some today \<longrightarrow> updateStreak today st = (st, streak u)) \<and>
         (lastPlayDate u \<noteq> Some today \<longrightarrow>
            (\<exists>u'. updateStreak today st = (Some u', streak u') \<and>
                  lastPlayDate u' = Some today \<and>
                  u' = u \<lparr> streak := streak u', lastPlayDate := Some today \<rparr> \<and>
                  (lastPlayDate u = None \<longrightarrow> streak u' = 1) \<and>
                  (\<forall>d. lastPlayDate u = Some d \<and> today - d = 1 \<longrightarrow> streak u' = streak u + 1) \<and>
                  (\<forall>d. lastPlayDate u = Some d \<and> today - d > 1 \<longrightarrow> streak u' = 1)))"
proof (intro conjI impI)
  assume "lastPlayDate u = Some today"
  with assms show "updateStreak today st = (st, streak u)"
    by (simp add: updateStreak_def)
next
  assume ne: "lastPlayDate u \<noteq> Some today"
  show "\<exists>u'. updateStreak today st = (Some u', streak u') \<and>
             lastPlayDate u' = Some today \<and>
             u' = u \<lparr> streak := streak u', lastPlayDate := Some today \<rparr> \<and>
             (lastPlayDate u = None \<longrightarrow> streak u' = 1) \<and>
             (\<forall>d. lastPlayDate u = Some d \<and> today - d = 1 \<longrightarrow> streak u' = streak u + 1) \<and>
             (\<forall>d. lastPlayDate u = Some d \<and> today - d > 1 \<longrightarrow> streak u' = 1)"
  proof (cases "lastPlayDate u")
    case None
    with assms show ?thesis
      by (simp add: updateStreak_def saveUserData_def Let_def)
  next
    case (Some d)
    with assms ne show ?thesis
      by (simp add: updateStreak_def saveUserData_def Let_def diffDays_eq)
  qed
qed

text \<open>The four cases on day 101: played today, never played, played yesterday, played three days ago.\<close>

theorem updateStreak_law_witness:
  "updateStreak 101 (Some (defaultUserData \<lparr> streak := 4, lastPlayDate := Some 101 \<rparr>)) =
     (Some (defaultUserData \<lparr> streak := 4, lastPlayDate := Some 101 \<rparr>), 4) \<and>
   updateStreak 101 (Some defaultUserData) =
     (Some (defaultUserData \<lparr> streak := 1, lastPlayDate := Some 101 \<rparr>), 1) \<and>
   updateStreak 101 (Some (defaultUserData \<lparr> streak := 4, lastPlayDate := Some 100 \<rparr>)) =
     (Some (defaultUserData \<lparr> streak := 5, lastPlayDate := Some 101 \<rparr>), 5) \<and>
   updateStreak 101 (Some (defaultUserData \<lparr> streak := 4, lastPlayDate := Some 98 \<rparr>)) =
     (Some (defaultUserData \<lparr> streak := 1, lastPlayDate := Some 101 \<rparr>), 1)"
proof -
  have l: "loadUserData (Some x) = Some x" for x by (simp add: loadUserData_def)
  have a: "updateStreak 101 (Some (defaultUserData \<lparr> streak := 4, lastPlayDate := Some 101 \<rparr>)) =
     (Some (defaultUserData \<lparr> streak := 4, lastPlayDate := Some 101 \<rparr>), 4)"
    using updateStreak_law [OF l, of "defaultUserData \<lparr> streak := 4, lastPlayDate := Some 101 \<rparr>" 101]
    by simp
  have b: "updateStreak 101 (Some defaultUserData) =
     (Some (defaultUserData \<lparr> streak := 1, lastPlayDate := Some 101 \<rparr>), 1)"
    using updateStreak_law [OF l, of defaultUserData 101]
    by (auto simp add: defaultUserData_def)
  have c: "updateStreak 101 (Some (defaultUserData \<lparr> streak := 4, lastPlayDate := Some 100 \<rparr>)) =
     (Some (defaultUserData \<lparr> streak := 5, lastPlayDate := Some 101 \<rparr>), 5)"
    using updateStreak_law [OF l, of "defaultUserData \<lparr> streak := 4, lastPlayDate := Some 100 \<rparr>" 101]
    by auto
  have d: "updateStreak 101 (Some (defaultUserData \<lparr> streak := 4, lastPlayDate := Some 98 \<rparr>)) =
     (Some (defaultUserData \<lparr> streak := 1, lastPlayDate := Some 101 \<rparr>), 1)"
    using updateStreak_law [OF l, of "defaultUserData \<lparr> streak := 4, lastPlayDate := Some 98 \<rparr>" 101]
    by auto
  from a b c d show ?thesis by blast
qed

subsection \<open>Starting a quiz\<close>

lemma shuffleArray_Nil: "shuffleArray rnd [] = []"
  by (simp add: shuffleArray_def)

text \<open>The session of the next example is reached by the operations themselves.\<close>

lemma session_in_progress_reached:
  "checkAnswer 1
     (fst (startQuiz rnd ''advanced'' (QuizManager_new \<lparr> questions := [sample_question] \<rparr>)))
     = Inr (session_in_progress,
            Some \<lparr> isCorrect = True, a_correctAnswer = 1, a_explanation = ''b'',
                   points = JSNumber 30 \<rparr>)"
  by (simp add: checkAnswer_def startQuiz_def selectQuestions_def shuffleArray_def
        getCurrentQuestion_def at_index_def QuizManager_new_def sample_question_def
        session_in_progress_def calculatePoints_def get_property_def js_or_def
        basePoints_def Let_def)

text \<open>
  A session on the one advanced question of the pool, answered correctly for 30 points.
  Asking for a beginner quiz, of which the pool has no question, fails, and the session is
  not what it was: its difficulty, score, counters and question list have been overwritten.
\<close>

theorem startQuiz_no_match_mutates_counterexample:
  "filter (\<lambda>q. q_difficulty q = ''beginner'') (questions session_in_progress) = [] \<and>
   snd (startQuiz (\<lambda>i. 0) ''beginner'' session_in_progress) = False \<and>
   fst (startQuiz (\<lambda>i. 0) ''beginner'' session_in_progress) \<noteq> session_in_progress \<and>
   score session_in_progress = JSNumber 30 \<and>
   score (fst (startQuiz (\<lambda>i. 0) ''beginner'' session_in_progress)) = JSNumber 0 \<and>
   difficulty session_in_progress = ''advanced'' \<and>
   difficulty (fst (startQuiz (\<lambda>i. 0) ''beginner'' session_in_progress)) = ''beginner'' \<and>
   currentQuestions session_in_progress = [sample_question] \<and>
   currentQuestions (fst (startQuiz (\<lambda>i. 0) ''beginner'' session_in_progress)) = []"
  by (simp add: startQuiz_def selectQuestions_def shuffleArray_def session_in_progress_def
        sample_question_def Let_def)

text \<open>
  Claim C4, amended. When no question of the pool has the requested difficulty,
  \<open>startQuiz\<close> returns the failure signal after resetting the session: the difficulty is
  the requested one, the cursor, the score and both counters are 0, the wrong answers and
  the question list are empty; the pool and the answered guard are as before.
\<close>

theorem startQuiz_no_match:
  assumes "filter (\<lambda>q. q_difficulty q = d) (questions qm) = []"
  shows "startQuiz rnd d qm =
           (qm \<lparr> difficulty := d, currentQuestionIndex := 0, score := JSNumber 0,
                 correctAnswers_q := 0,
                 wrongAnswers := [], consecutiveCorrect := 0, currentQuestions := [] \<rparr>, False)"
  using assms by (simp add: startQuiz_def selectQuestions_def shuffleArray_Nil Let_def)

text \<open>
  The played session asked for a beginner quiz: the failure signal, and the session reset
  to the requested difficulty with its pool and its answered guard kept.
\<close>

theorem startQuiz_no_match_witness:
  "filter (\<lambda>q. q_difficulty q = ''beginner'') (questions session_in_progress) = [] \<and>
   startQuiz (\<lambda>i. 0) ''beginner'' session_in_progress =
     (QuizManager_new \<lparr> questions := [sample_question], difficulty := ''beginner'',
                        isAnswered := True \<rparr>, False)"
proof -
  have h: "filter (\<lambda>q. q_difficulty q = ''beginner'') (questions session_in_progress) = []"
    by (simp add: session_in_progress_def sample_question_def)
  from startQuiz_no_match [OF h, of "\<lambda>i. 0"] h show ?thesis
    by (simp add: session_in_progress_def QuizManager_new_def)
qed

subsection \<open>Answering\<close>

text \<open>
  Claim C9. In a session in progress (the current question exists and is not answered),
  \<open>checkAnswer\<close> returns a feedback record. For a correct answer its points, recomputed
  from the incremented consecutive counter, are the very value added to the score in the
  same call: the new score is the old score plus the points of the feedback. With a
  numeric score, and a difficulty that does not name an inherited property, the points are a
  number and the score has grown by exactly that number. For an incorrect answer the points
  are 0 and the score is unchanged.
\<close>

theorem checkAnswer_points_agree:
  assumes "\<not> isAnswered qm" and "getCurrentQuestion qm = Some q"
  shows "\<exists>qm' r. checkAnswer sel qm = Inr (qm', Some r) \<and>
           isCorrect r = (sel = q_correctAnswer q) \<and>
           (isCorrect r \<longrightarrow>
              points r = calculatePoints (difficulty qm) True (consecutiveCorrect qm + 1) \<and>
              score qm' = js_plus (score qm) (points r) \<and>
              (\<forall>s. score qm = JSNumber s \<and> difficulty qm \<notin> set Object_prototype_names \<longrightarrow>
                   (\<exists>p. points r = JSNumber p \<and> score qm' = JSNumber (s + p)))) \<and>
           (\<not> isCorrect r \<longrightarrow> points r = JSNumber 0 \<and> score qm' = score qm)"
proof (cases "sel = q_correctAnswer q")
  case False
  with assms show ?thesis by (simp add: checkAnswer_def Let_def)
next
  case True
  let ?v = "calculatePoints (difficulty qm) True (consecutiveCorrect qm + 1)"
  have num: "\<exists>p. ?v = JSNumber p \<and> js_plus (score qm) ?v = JSNumber (s + p)"
    if "score qm = JSNumber s" "difficulty qm \<notin> set Object_prototype_names" for s
  proof -
    from calculatePoints_number [OF that(2)] obtain p where "?v = JSNumber p" by blast
    with that(1) show ?thesis by simp
  qed
  from assms True num show ?thesis by (simp add: checkAnswer_def Let_def)
qed

text \<open>The fifth correct answer in a row on an advanced question: 60 points, score 100 to 160.\<close>

theorem checkAnswer_points_agree_witness:
  "\<not> isAnswered (QuizManager_new \<lparr> currentQuestions := [sample_question],
                    difficulty := ''advanced'', consecutiveCorrect := 4,
                    score := JSNumber 100 \<rparr>) \<and>
   (\<exists>qm' r. checkAnswer 1 (QuizManager_new \<lparr> currentQuestions := [sample_question],
                 difficulty := ''advanced'', consecutiveCorrect := 4,
                 score := JSNumber 100 \<rparr>)
               = Inr (qm', Some r) \<and>
             isCorrect r \<and> points r = JSNumber 60 \<and> score qm' = JSNumber 160)"
proof -
  let ?qm = "QuizManager_new \<lparr> currentQuestions := [sample_question],
               difficulty := ''advanced'', consecutiveCorrect := 4, score := JSNumber 100 \<rparr>"
  have h1: "\<not> isAnswered ?qm" by (simp add: QuizManager_new_def)
  have h2: "getCurrentQuestion ?qm = Some sample_question"
    by (simp add: getCurrentQuestion_def at_index_def QuizManager_new_def)
  from checkAnswer_points_agree [OF h1 h2, of 1]
  obtain qm' r where r: "checkAnswer 1 ?qm = Inr (qm', Some r)"
    "isCorrect r = (1 = q_correctAnswer sample_question)"
    "isCorrect r \<longrightarrow>
       points r = calculatePoints (difficulty ?qm) True (consecutiveCorrect ?qm + 1) \<and>
       score qm' = js_plus (score ?qm) (points r)"
    by blast
  from r(2) have c: "isCorrect r" by (simp add: sample_question_def)
  with r(3) have "points r = JSNumber 60"
    by (simp add: calculatePoints_def get_property_def js_or_def basePoints_def
          QuizManager_new_def)
  moreover from this c r(3) have "score qm' = JSNumber 160" by simp
  ultimately show ?thesis using r(1) c h1 by blast
qed

subsection \<open>Percentages of nothing\<close>

text \<open>
  Claim C10. \<open>calculatePercentage\<close> of any value out of 0 is 0; hence the progress of a
  session with an empty question list is 0; and \<open>updateStatistics\<close> leaves the accuracy
  rate as it was whenever the cumulative number of questions is (still) not positive.
\<close>

theorem calculatePercentage_zero_total:
  "calculatePercentage v 0 = 0 \<and>
   (currentQuestions qm = [] \<longrightarrow> getProgress qm = 0) \<and>
   (\<forall>u. loadUserData st = Some u \<and>
        totalQuestions (statistics u) +
          (case stats_totalQuestions stats of None \<Rightarrow> 0 | Some n \<Rightarrow> n) \<le> 0 \<longrightarrow>
        (\<exists>u'. updateStatistics stats st = Some u' \<and>
              accuracyRate (statistics u') = accuracyRate (statistics u)))"
  by (auto simp add: calculatePercentage_def getProgress_def updateStatistics_def
        saveUserData_def Let_def split: option.splits prod.splits)

text \<open>On the default record, whose accuracy rate is 0, a session of no questions leaves it 0.\<close>

theorem calculatePercentage_zero_total_witness:
  "calculatePercentage 7 0 = 0 \<and>
   currentQuestions QuizManager_new = [] \<and> getProgress QuizManager_new = 0 \<and>
   (\<exists>u'. updateStatistics \<lparr> stats_totalQuestions = Some 0, stats_correctAnswers = Some 0,
                            stats_category = None \<rparr> (Some defaultUserData) = Some u' \<and>
         accuracyRate (statistics u') = 0)"
proof -
  let ?stats = "\<lparr> stats_totalQuestions = Some 0, stats_correctAnswers = Some 0,
                  stats_category = None \<rparr>"
  note t = calculatePercentage_zero_total [of 7 QuizManager_new "Some defaultUserData" ?stats]
  have e: "currentQuestions QuizManager_new = []" by (simp add: QuizManager_new_def)
  from t have a: "calculatePercentage 7 0 = 0" by blast
  from t e have b: "getProgress QuizManager_new = 0" by blast
  have "loadUserData (Some defaultUserData) = Some defaultUserData \<and>
        totalQuestions (statistics defaultUserData) +
          (case stats_totalQuestions ?stats of None \<Rightarrow> 0 | Some n \<Rightarrow> n) \<le> 0"
    by (simp add: loadUserData_def defaultUserData_def)
  with t obtain u' where "updateStatistics ?stats (Some defaultUserData) = Some u'"
    "accuracyRate (statistics u') = accuracyRate (statistics defaultUserData)"
    by blast
  then have "\<exists>u'. updateStatistics ?stats (Some defaultUserData) = Some u' \<and>
                  accuracyRate (statistics u') = 0"
    by (simp add: defaultUserData_def)
  with a b e show ?thesis by blast
qed

subsection \<open>Quiz history\<close>

lemma slice_last_length: "length (slice_last n xs) = min n (length xs)"
  by (simp add: slice_last_def)

lemma slice_last_idem: "slice_last n (slice_last n a @ b) = slice_last n (a @ b)"
proof -
  have "length a + length b - (length a - n + n) + (length a - n) = length a + length b - n"
    by arith
  then show ?thesis by (simp add: slice_last_def)
qed

lemma addQuizToHistory_Some:
  "addQuizToHistory r today now (Some u) =
     Some (u \<lparr> quizHistory := slice_last 50 (quizHistory u @ [stamp r today now]) \<rparr>)"
  by (simp add: addQuizToHistory_def loadUserData_def saveUserData_def Let_def slice_last_def)

lemma stamp3_triple: "stamp3 (r, today, now) = stamp r today now"
  by (simp add: stamp3_def)

lemma addQuizzesToHistory_Some:
  "rs \<noteq> [] \<Longrightarrow> addQuizzesToHistory rs (Some u) =
     Some (u \<lparr> quizHistory := slice_last 50 (quizHistory u @ map stamp3 rs) \<rparr>)"
proof (induction rs arbitrary: u)
  case Nil
  then show ?case by simp
next
  case (Cons x rs)
  obtain r today now where x: "x = (r, today, now)" by (cases x) auto
  show ?case
  proof (cases "rs = []")
    case True
    with x show ?thesis by (simp add: addQuizToHistory_Some stamp3_triple)
  next
    case False
    from Cons.IH [OF False] x show ?thesis
      using slice_last_idem [of 50 "quizHistory u @ [stamp r today now]" "map stamp3 rs"]
      by (simp add: addQuizToHistory_Some stamp3_triple)
  qed
qed

text \<open>
  Claim C7. For a stored record and an appended session summary, the history after
  \<open>addQuizToHistory\<close> is the last 50 entries of the old history followed by the new
  entry, in their order, so it has at most 50 entries. After 55 completed sessions the
  history has exactly 50 entries: the summaries of the last 50 sessions in the order of
  their completion, the 5 oldest dropped.
\<close>

theorem quizHistory_bound:
  assumes "loadUserData st = Some u"
  shows "(\<exists>u'. addQuizToHistory r today now st = Some u' \<and>
              u' = u \<lparr> quizHistory := quizHistory u' \<rparr> \<and>
              quizHistory u' = slice_last 50 (quizHistory u @ [stamp r today now]) \<and>
              length (quizHistory u') \<le> 50 \<and>
              length (quizHistory u') = min 50 (length (quizHistory u) + 1)) \<and>
         (\<forall>rs. length rs = 55 \<longrightarrow>
            (\<exists>u'. addQuizzesToHistory rs st = Some u' \<and>
                  length (quizHistory u') = 50 \<and>
                  quizHistory u' = slice_last 50 (quizHistory u @ map stamp3 rs) \<and>
                  quizHistory u' = drop 5 (map stamp3 rs)))"
proof (intro conjI allI impI)
  from assms have st: "st = Some u" by (simp add: loadUserData_def)
  show "\<exists>u'. addQuizToHistory r today now st = Some u' \<and>
              u' = u \<lparr> quizHistory := quizHistory u' \<rparr> \<and>
              quizHistory u' = slice_last 50 (quizHistory u @ [stamp r today now]) \<and>
              length (quizHistory u') \<le> 50 \<and>
              length (quizHistory u') = min 50 (length (quizHistory u) + 1)"
    by (simp add: st addQuizToHistory_Some slice_last_length)
  fix rs :: "(QuizSummary \<times> date \<times> int) list"
  assume len: "length rs = 55"
  then have ne: "rs \<noteq> []" by auto
  have d: "slice_last 50 (quizHistory u @ map stamp3 rs) = drop 5 (map stamp3 rs)"
    using len by (simp add: slice_last_def)
  show "\<exists>u'. addQuizzesToHistory rs st = Some u' \<and>
             length (quizHistory u') = 50 \<and>
             quizHistory u' = slice_last 50 (quizHistory u @ map stamp3 rs) \<and>
             quizHistory u' = drop 5 (map stamp3 rs)"
    using len d by (simp add: st addQuizzesToHistory_Some [OF ne] slice_last_length)
qed

text \<open>
  Fifty-five sessions on the default record, timestamps 1 to 55: the history keeps
  the timestamps 6 to 55 in order.
\<close>

theorem quizHistory_bound_witness:
  "loadUserData (Some defaultUserData) = Some defaultUserData \<and>
   length (map (\<lambda>i. (sample_summary, 20000 + int i, int i)) [1..<56]) = 55 \<and>
   (\<exists>u'. addQuizzesToHistory (map (\<lambda>i. (sample_summary, 20000 + int i, int i)) [1..<56])
            (Some defaultUserData) = Some u' \<and>
         length (quizHistory u') = 50 \<and>
         map h_timestamp (quizHistory u') = map int [6..<56])"
proof -
  let ?rs = "map (\<lambda>i. (sample_summary, 20000 + int i, int i)) [1..<56]"
  have h: "loadUserData (Some defaultUserData) = Some defaultUserData"
    by (simp add: loadUserData_def)
  have len: "length ?rs = 55" by simp
  from quizHistory_bound [OF h, of sample_summary 0 0] len
  obtain u' where u': "addQuizzesToHistory ?rs (Some defaultUserData) = Some u'"
    "length (quizHistory u') = 50" "quizHistory u' = drop 5 (map stamp3 ?rs)"
    by blast
  have "map h_timestamp (drop 5 (map stamp3 ?rs)) = map int [6..<56]"
    by (simp add: drop_map stamp3_triple stamp_def o_def)
  with u' h len show ?thesis by auto
qed

subsection \<open>Badges\<close>

lemma badgeBlock_step:
  "badgeBlock u b c (Some (u \<lparr> badges := badges u @ nb \<rparr>), nb) =
     (Some (u \<lparr> badges := badges u @ newlyGranted u [(b, c)] nb \<rparr>), newlyGranted u [(b, c)] nb)"
  by (simp add: badgeBlock_def awardBadge_def loadUserData_def saveUserData_def)

lemma newlyGranted_append:
  "newlyGranted u (cs @ ds) nb = newlyGranted u ds (newlyGranted u cs nb)"
  by (induction cs arbitrary: nb) auto

lemma badgeBlock_newly:
  "badgeBlock u b c (Some (u \<lparr> badges := badges u @ newlyGranted u cs [] \<rparr>), newlyGranted u cs []) =
     (Some (u \<lparr> badges := badges u @ newlyGranted u (cs @ [(b, c)]) [] \<rparr>),
      newlyGranted u (cs @ [(b, c)]) [])"
  by (simp only: badgeBlock_step newlyGranted_append)

lemma checkBadgeConditions_Some:
  "checkBadgeConditions q (Some u) =
     (Some (u \<lparr> badges := badges u @ newlyGranted u (badge_conditions q u) [] \<rparr>),
      newlyGranted u (badge_conditions q u) [])"
proof -
  have start: "(Some u, []) = (Some (u \<lparr> badges := badges u @ newlyGranted u [] [] \<rparr>), newlyGranted u [] [])"
    by simp
  show ?thesis
    unfolding checkBadgeConditions_def loadUserData_def Let_def option.case start
      badgeBlock_newly append.simps badge_conditions_def ..
qed

lemma newlyGranted_mono: "set nb \<subseteq> set (newlyGranted u cs nb)"
proof (induction cs arbitrary: nb)
  case Nil
  show ?case by simp
next
  case (Cons x cs)
  obtain b c where x: "x = (b, c)" by (cases x)
  have "set nb \<subseteq> set (if b \<notin> set (badges u) \<and> c \<and> b \<notin> set nb then nb @ [b] else nb)"
    by auto
  also have "\<dots> \<subseteq> set (newlyGranted u (x # cs) nb)"
    unfolding x newlyGranted.simps by (rule Cons.IH)
  finally show ?case .
qed

lemma newlyGranted_prefix: "\<exists>ys. newlyGranted u cs nb = nb @ ys"
proof (induction cs arbitrary: nb)
  case Nil
  show ?case by simp
next
  case (Cons x cs)
  obtain b c where x: "x = (b, c)" by (cases x)
  from Cons.IH [of "nb @ [b]"] Cons.IH [of nb] show ?case
    unfolding x by auto
qed

lemma newlyGranted_distinct:
  "distinct nb \<Longrightarrow> distinct (newlyGranted u cs nb)"
  by (induction cs arbitrary: nb) auto

lemma newlyGranted_fresh:
  "set nb \<inter> set (badges u) = {} \<Longrightarrow> set (newlyGranted u cs nb) \<inter> set (badges u) = {}"
proof (induction cs arbitrary: nb)
  case Nil
  then show ?case by simp
next
  case (Cons x cs)
  obtain b c where x: "x = (b, c)" by (cases x)
  let ?nb = "if b \<notin> set (badges u) \<and> c \<and> b \<notin> set nb then nb @ [b] else nb"
  from Cons.prems have "set ?nb \<inter> set (badges u) = {}" by auto
  then have "set (newlyGranted u cs ?nb) \<inter> set (badges u) = {}" by (rule Cons.IH)
  then show ?case unfolding x newlyGranted.simps .
qed

lemma newlyGranted_complete:
  "(b, True) \<in> set cs \<Longrightarrow> b \<notin> set (badges u) \<Longrightarrow> b \<in> set (newlyGranted u cs nb)"
proof (induction cs arbitrary: nb)
  case Nil
  then show ?case by simp
next
  case (Cons x cs)
  obtain b' c' where x: "x = (b', c')" by (cases x)
  let ?nb = "if b' \<notin> set (badges u) \<and> c' \<and> b' \<notin> set nb then nb @ [b'] else nb"
  show ?case
  proof (cases "x = (b, True)")
    case True
    with x Cons.prems have "b \<in> set ?nb" by auto
    with newlyGranted_mono [of ?nb u cs] have "b \<in> set (newlyGranted u cs ?nb)" by blast
    with x show ?thesis by simp
  next
    case False
    with Cons.prems have "(b, True) \<in> set cs" by simp
    from Cons.IH [OF this Cons.prems(2), of ?nb] x show ?thesis by simp
  qed
qed

lemma newlyGranted_none:
  "(\<forall>b. (b, True) \<in> set cs \<longrightarrow> b \<in> set (badges u)) \<Longrightarrow> newlyGranted u cs nb = nb"
proof (induction cs arbitrary: nb)
  case Nil
  show ?case by simp
next
  case (Cons x cs)
  obtain b c where x: "x = (b, c)" by (cases x)
  from Cons.prems x have keep: "(if b \<notin> set (badges u) \<and> c \<and> b \<notin> set nb then nb @ [b] else nb) = nb"
    by auto
  from Cons.prems have "\<forall>b. (b, True) \<in> set cs \<longrightarrow> b \<in> set (badges u)" by simp
  then have "newlyGranted u cs nb = nb" by (rule Cons.IH)
  then show ?case unfolding x newlyGranted.simps keep .
qed

lemma badge_conditions_badges:
  "badge_conditions q (u \<lparr> badges := bs \<rparr>) = badge_conditions q u"
  by (simp add: badge_conditions_def)

lemma checkBadgeConditions_again:
  "checkBadgeConditions q (Some (u \<lparr> badges := badges u @ newlyGranted u (badge_conditions q u) [] \<rparr>)) =
     (Some (u \<lparr> badges := badges u @ newlyGranted u (badge_conditions q u) [] \<rparr>), [])"
proof -
  let ?N = "newlyGranted u (badge_conditions q u) []"
  let ?u1 = "u \<lparr> badges := badges u @ ?N \<rparr>"
  have "b \<in> set (badges ?u1)" if "(b, True) \<in> set (badge_conditions q ?u1)" for b
  proof (cases "b \<in> set (badges u)")
    case True
    then show ?thesis by simp
  next
    case False
    from that have "(b, True) \<in> set (badge_conditions q u)"
      by (simp only: badge_conditions_badges)
    from newlyGranted_complete [OF this False] show ?thesis by simp
  qed
  then have "newlyGranted ?u1 (badge_conditions q ?u1) [] = []"
    by (intro newlyGranted_none) blast
  then show ?thesis by (simp add: checkBadgeConditions_Some)
qed

text \<open>The import of a record is \<open>importData\<close> on its serialised form.\<close>

lemma importRecord_importData:
  "map_option json_of_UserProgress (importRecord imported st) =
     fst (importData (case imported of None \<Rightarrow> Malformed
                                     | Some userData \<Rightarrow> Text (json_of_UserProgress userData))
            (map_option json_of_UserProgress st))"
  by (cases imported) (simp_all add: importRecord_def importData_def saveUserData_def)

lemma perform_keeps_badges:
  assumes "\<not> writes_badges op"
  shows "\<exists>ys. perform op (Some u) = Some (the (perform op (Some u))) \<and>
           badges (the (perform op (Some u))) = badges u @ ys"
proof (cases op)
  case (AddExperience amount)
  then show ?thesis
    by (simp add: addExperience_def loadUserData_def saveUserData_def Let_def split: prod.splits)
next
  case (AddPoints p)
  then show ?thesis by (simp add: addPoints_def loadUserData_def saveUserData_def)
next
  case (StorageAddExperience amount)
  then show ?thesis by (simp add: storage_addExperience_def loadUserData_def saveUserData_def)
next
  case (UnlockFigure f)
  then show ?thesis by (simp add: unlockFigure_def loadUserData_def saveUserData_def)
next
  case (AwardBadge b)
  then show ?thesis by (simp add: awardBadge_def loadUserData_def saveUserData_def)
next
  case (UpdateStatistics stats)
  then show ?thesis by (simp add: updateStatistics_def loadUserData_def saveUserData_def Let_def)
next
  case (AddQuizToHistory r today now)
  then show ?thesis by (simp add: addQuizToHistory_Some)
next
  case (UpdateStreak today)
  then show ?thesis
    by (simp add: updateStreak_def loadUserData_def saveUserData_def Let_def split: option.splits)
next
  case (CheckBadgeConditions q)
  then show ?thesis by (simp add: checkBadgeConditions_Some)
next
  case (CheckCategoryMaster c fs)
  then show ?thesis
    by (simp add: checkCategoryMaster_def awardBadge_def loadUserData_def saveUserData_def Let_def)
next
  case (ResetUserData confirmed)
  with assms show ?thesis by (simp add: resetUserData_def)
next
  case (ImportData imported)
  with assms show ?thesis by (simp add: importRecord_def)
next
  case (UpdateField fv)
  with assms show ?thesis
    by (cases fv) (simp_all add: updateField_def loadUserData_def saveUserData_def)
qed

text \<open>
  A badge granted by \<open>awardBadge\<close> on the default record is gone after a confirmed
  \<open>resetUserData\<close>, which saves the default record with its empty list of badges.
\<close>

theorem badges_removed_by_reset_counterexample:
  "awardBadge ''beginner'' (Some defaultUserData) =
     (Some (defaultUserData \<lparr> badges := [''beginner''] \<rparr>), True) \<and>
   perform (ResetUserData True) (Some (defaultUserData \<lparr> badges := [''beginner''] \<rparr>)) =
     Some defaultUserData \<and>
   ''beginner'' \<in> set (badges (defaultUserData \<lparr> badges := [''beginner''] \<rparr>)) \<and>
   ''beginner'' \<notin> set (badges defaultUserData)"
  by (simp add: awardBadge_def resetUserData_def loadUserData_def saveUserData_def
        defaultUserData_def)

text \<open>
  Claim C5, amended. For a stored record and a session summary, \<open>checkBadgeConditions\<close>
  appends to the persisted badges exactly the badges it returns as new; these are distinct
  and none of them was already held, so a set of badges without duplicates stays so. A
  second call on the resulting state with the same summary returns nothing and leaves the
  store as it is; with any summary, it returns no badge that is already held. And every
  operation on the record keeps the badges held, in place (the new list of badges extends
  the old one), except the three that write the list as a whole: a confirmed
  \<open>resetUserData\<close>, \<open>importData\<close> of a record, and \<open>updateField\<close> of \<open>badges\<close>.
\<close>

theorem checkBadgeConditions_idempotent:
  assumes "loadUserData st = Some u"
  shows "\<exists>u1 new1.
           checkBadgeConditions q st = (Some u1, new1) \<and>
           u1 = u \<lparr> badges := badges u @ new1 \<rparr> \<and>
           distinct new1 \<and> set new1 \<inter> set (badges u) = {} \<and>
           (distinct (badges u) \<longrightarrow> distinct (badges u1)) \<and>
           checkBadgeConditions q (Some u1) = (Some u1, []) \<and>
           (\<forall>q'. \<exists>new2. checkBadgeConditions q' (Some u1) =
                          (Some (u1 \<lparr> badges := badges u1 @ new2 \<rparr>), new2) \<and>
                        set new2 \<inter> set (badges u1) = {}) \<and>
           (\<forall>op. \<not> writes_badges op \<longrightarrow>
                 (\<exists>u' ys. perform op st = Some u' \<and> badges u' = badges u @ ys))"
proof -
  from assms have st: "st = Some u" by (simp add: loadUserData_def)
  let ?N = "newlyGranted u (badge_conditions q u) []"
  let ?u1 = "u \<lparr> badges := badges u @ ?N \<rparr>"
  have fresh: "set ?N \<inter> set (badges u) = {}" by (rule newlyGranted_fresh) simp
  have dist: "distinct ?N" by (rule newlyGranted_distinct) simp
  show ?thesis
  proof (rule exI [of _ ?u1], rule exI [of _ ?N], intro conjI allI impI)
    show "checkBadgeConditions q st = (Some ?u1, ?N)"
      unfolding st by (rule checkBadgeConditions_Some)
    show "?u1 = u \<lparr> badges := badges u @ ?N \<rparr>" ..
    show "distinct ?N" by (rule dist)
    show "set ?N \<inter> set (badges u) = {}" by (rule fresh)
    assume "distinct (badges u)"
    with dist fresh show "distinct (badges ?u1)" by auto
  next
    show "checkBadgeConditions q (Some ?u1) = (Some ?u1, [])"
      by (rule checkBadgeConditions_again)
  next
    fix q'
    show "\<exists>new2. checkBadgeConditions q' (Some ?u1) =
                   (Some (?u1 \<lparr> badges := badges ?u1 @ new2 \<rparr>), new2) \<and>
                 set new2 \<inter> set (badges ?u1) = {}"
    proof (intro exI conjI)
      show "checkBadgeConditions q' (Some ?u1) =
              (Some (?u1 \<lparr> badges := badges ?u1 @ newlyGranted ?u1 (badge_conditions q' ?u1) [] \<rparr>),
               newlyGranted ?u1 (badge_conditions q' ?u1) [])"
        by (rule checkBadgeConditions_Some)
      show "set (newlyGranted ?u1 (badge_conditions q' ?u1) []) \<inter> set (badges ?u1) = {}"
        by (rule newlyGranted_fresh) simp
    qed
  next
    fix op
    assume "\<not> writes_badges op"
    from perform_keeps_badges [OF this, of u]
    show "\<exists>u' ys. perform op st = Some u' \<and> badges u' = badges u @ ys"
      unfolding st by blast
  qed
qed

text \<open>
  A perfect session on a fresh record with a streak of 7: three badges at the first
  check, none at the second.
\<close>

theorem checkBadgeConditions_idempotent_witness:
  "loadUserData (Some (defaultUserData \<lparr> streak := 7 \<rparr>)) = Some (defaultUserData \<lparr> streak := 7 \<rparr>) \<and>
   checkBadgeConditions \<lparr> s_correctAnswers = 10, s_totalQuestions = 10, s_difficulty = ''beginner'' \<rparr>
       (Some (defaultUserData \<lparr> streak := 7 \<rparr>)) =
     (Some (defaultUserData \<lparr> streak := 7, badges := [''beginner'', ''perfectionist'', ''streak_7''] \<rparr>),
      [''beginner'', ''perfectionist'', ''streak_7'']) \<and>
   checkBadgeConditions \<lparr> s_correctAnswers = 10, s_totalQuestions = 10, s_difficulty = ''beginner'' \<rparr>
       (Some (defaultUserData \<lparr> streak := 7, badges := [''beginner'', ''perfectionist'', ''streak_7''] \<rparr>)) =
     (Some (defaultUserData \<lparr> streak := 7, badges := [''beginner'', ''perfectionist'', ''streak_7''] \<rparr>),
      []) \<and>
   \<not> writes_badges (UpdateStreak 101) \<and>
   (\<exists>u' ys. perform (UpdateStreak 101) (Some (defaultUserData \<lparr> streak := 7 \<rparr>)) = Some u' \<and>
           badges u' = badges (defaultUserData \<lparr> streak := 7 \<rparr>) @ ys)"
proof -
  let ?u0 = "defaultUserData \<lparr> streak := 7 \<rparr>"
  let ?q = "\<lparr> s_correctAnswers = 10, s_totalQuestions = 10, s_difficulty = ''beginner'' \<rparr>"
  let ?bs = "[''beginner'', ''perfectionist'', ''streak_7'']"
  have h: "loadUserData (Some ?u0) = Some ?u0" by (simp add: loadUserData_def)
  have first: "checkBadgeConditions ?q (Some ?u0) = (Some (?u0 \<lparr> badges := ?bs \<rparr>), ?bs)"
    by (simp add: checkBadgeConditions_def badgeBlock_def awardBadge_def loadUserData_def
          saveUserData_def defaultUserData_def)
  from checkBadgeConditions_idempotent [OF h, of ?q]
  obtain u1 new1 where "checkBadgeConditions ?q (Some ?u0) = (Some u1, new1)"
    and again: "checkBadgeConditions ?q (Some u1) = (Some u1, [])"
    and ops: "\<forall>op. \<not> writes_badges op \<longrightarrow>
                (\<exists>u' ys. perform op (Some ?u0) = Some u' \<and> badges u' = badges ?u0 @ ys)"
    by blast
  with first have "u1 = ?u0 \<lparr> badges := ?bs \<rparr>" by simp
  with again have second: "checkBadgeConditions ?q (Some (?u0 \<lparr> badges := ?bs \<rparr>)) =
                             (Some (?u0 \<lparr> badges := ?bs \<rparr>), [])"
    by simp
  have nw: "\<not> writes_badges (UpdateStreak 101)" by simp
  with ops have kept: "\<exists>u' ys. perform (UpdateStreak 101) (Some ?u0) = Some u' \<and>
                                badges u' = badges ?u0 @ ys"
    by blast
  from h first second nw kept show ?thesis by simp
qed

subsection \<open>Import\<close>

text \<open>
  Importing the text of the empty object over the stored default record: the empty object
  is committed in place of the record and no failure is surfaced, although it has none of
  the fields of a record.
\<close>

theorem importData_unvalidated_counterexample:
  "importData (Text (JObj [])) (Some (json_of_UserProgress defaultUserData)) =
     (Some (JObj []), Reloaded) \<and>
   \<not> structurally_valid (JObj []) \<and>
   structurally_valid (json_of_UserProgress defaultUserData)"
  by (simp add: importData_def json_of_UserProgress_def UserProgress_fields_def)

text \<open>
  Claim C6, amended. Import rejects only a text that is not JSON: then the stored record
  is left intact and the failure is surfaced. Any text that parses is committed as it is,
  whatever its structure, and replaces the stored record.
\<close>

theorem importData_commits_parsed:
  "importData Malformed st = (st, ImportFailed) \<and>
   importData (Text v) st = (Some v, Reloaded)"
  by (simp add: importData_def)

end
